theory Spec2Isabelle
  imports Complex_Main "HOL-Library.AList"
begin

section \<open>Gesture calibrator (gesture\_calibrator.py)\<close>

text \<open>
  A landmark is the tuple \<open>(i, x, y)\<close> the tracker produces: the landmark's index and its
  integer pixel coordinates. Python integers are unbounded, hence \<open>int\<close>. The results of
  \<open>np.sqrt\<close> and of float multiplication are read as real numbers: \<open>sqrt\<close> and \<open>*\<close> on
  \<open>real\<close> stand for the float operations, and rounding is not modelled.
\<close>

type_synonym landmark = "nat \<times> int \<times> int"

fun lm_x :: "landmark \<Rightarrow> int" where
  "lm_x (i, x, y) = x"

fun lm_y :: "landmark \<Rightarrow> int" where
  "lm_y (i, x, y) = y"

datatype py_error = IndexError

definition calibration_steps :: "string list" where
  "calibration_steps = [''open_hand'', ''fist'', ''pinch'', ''pointing'', ''victory'']"

text \<open>One entry of \<open>calibration_data\<close>: the dictionary stored for a step.\<close>

record snapshot =
  hand_size :: real
  landmarks :: "landmark list"
  finger_states :: "(string \<times> bool) list"
  timestamp :: real

text \<open>
  The object's attributes. \<open>calibration_thresholds\<close> and \<open>base_hand_size\<close> exist only once
  \<open>_calculate_thresholds\<close> has set them (the source probes them with \<open>hasattr\<close>): \<open>None\<close> is
  the missing attribute. Dictionaries that the code iterates are association lists in
  insertion order; \<open>calibration_data\<close> is only looked up and stored into, so it is a map.
\<close>

record calibrator =
  current_step :: nat
  calibration_data :: "string \<rightharpoonup> snapshot"
  is_calibrating :: bool
  calibration_complete :: bool
  calibration_thresholds :: "(string \<times> real) list option"
  base_hand_size :: "real option"

text \<open>
  Messages are f-strings; a number formatted into a message is kept as a number.
  \<open>Step_msg a b s\<close> is \<open>f"Step {a}/{b}: {s}"\<close>, \<open>Complete_msg r\<close> is
  \<open>f"Calibration complete! Hand size: {r:.1f}"\<close>, \<open>Literal_msg s\<close> is the string \<open>s\<close>.
\<close>

datatype message = Step_msg nat nat string | Complete_msg real | Literal_msg string

datatype step_info =
  Step_info (info_step: nat) (info_total_steps: nat) (info_gesture: string) (info_message: message)

datatype progress_info =
  Progress_info (prog_step: nat) (prog_total_steps: nat) (prog_gesture: string)
    (prog_hand_size: real) (prog_progress: real)

text \<open>
  What \<open>next_step\<close> returns: the dictionary of the next step, or the dictionary with
  \<open>'complete': True\<close>, the message, \<open>'thresholds'\<close> and \<open>'base_hand_size'\<close>.
\<close>

datatype next_result =
  Next_info step_info
  | Complete (complete_message: message)
      (complete_thresholds: "(string \<times> real) list option")
      (complete_base_hand_size: "real option")

fun is_complete :: "next_result \<Rightarrow> bool" where
  "is_complete (Complete m t b) = True"
| "is_complete (Next_info i) = False"

definition upper_char :: "char \<Rightarrow> char" where
  "upper_char c =
     (let n = (of_char c :: nat) in if 97 \<le> n \<and> n \<le> 122 then char_of (n - 32) else c)"

definition upper :: "string \<Rightarrow> string" where
  "upper s = map upper_char s"

text \<open>\<open>__init__\<close>: the new object.\<close>

definition init_calibrator :: calibrator where
  "init_calibrator =
     \<lparr>current_step = 0, calibration_data = Map.empty, is_calibrating = False,
      calibration_complete = False, calibration_thresholds = None, base_hand_size = None\<rparr>"

definition start_calibration :: "calibrator \<Rightarrow> int \<Rightarrow> int \<Rightarrow> calibrator \<times> step_info" where
  "start_calibration c frame_width frame_height =
     (let c' = c\<lparr>calibration_data := Map.empty, current_step := 0,
                  is_calibrating := True, calibration_complete := False\<rparr>
      in (c', Step_info (current_step c' + 1) (length calibration_steps)
                (calibration_steps ! current_step c')
                (Step_msg 1 (length calibration_steps) ''Show OPEN HAND'')))"

definition calculate_hand_size :: "landmark list \<Rightarrow> real" where
  "calculate_hand_size lms =
     (if length lms < 10 then 100
      else
        let wrist = lms ! 0;
            middle_mcp = lms ! 9;
            dx = lm_x wrist - lm_x middle_mcp;
            dy = lm_y wrist - lm_y middle_mcp
        in sqrt (real_of_int (dx * dx + dy * dy)))"

text \<open>\<open>k in d\<close> for a dictionary kept as an association list.\<close>

fun has_key :: "('k \<times> 'v) list \<Rightarrow> 'k \<Rightarrow> bool" where
  "has_key [] k = False"
| "has_key ((k', v) # d) k = (k = k' \<or> has_key d k)"

definition finger_data :: "(string \<times> nat \<times> nat) list" where
  "finger_data =
     [(''thumb'', 4, 3), (''index'', 8, 6), (''middle'', 12, 10),
      (''ring'', 16, 14), (''pinky'', 20, 18)]"

definition get_finger_states :: "landmark list \<Rightarrow> (string \<times> bool) list" where
  "get_finger_states lms =
     foldl (\<lambda>states (name, tip_idx, pip_idx).
              if tip_idx < length lms \<and> pip_idx < length lms
              then AList.update name (lm_y (lms ! tip_idx) < lm_y (lms ! pip_idx)) states
              else states)
       [] finger_data"

text \<open>
  \<open>process_calibration_step\<close> with \<open>frame=None\<close> (drawing on a frame does not touch the
  object). An absent landmark list and an empty one take the same branch, so the argument
  is a list. \<open>now\<close> is the clock reading \<open>cv2.getTickCount() / cv2.getTickFrequency()\<close>.
  Indexing \<open>calibration_steps\<close> beyond its end raises.
\<close>

definition process_calibration_step ::
  "calibrator \<Rightarrow> landmark list \<Rightarrow> real \<Rightarrow> py_error + calibrator \<times> progress_info option" where
  "process_calibration_step c lms now =
     (if lms = [] \<or> \<not> is_calibrating c then Inr (c, None)
      else if \<not> current_step c < length calibration_steps then Inl IndexError
      else
        let step_name = calibration_steps ! current_step c;
            hs = calculate_hand_size lms;
            c' = (if calibration_data c step_name = None
                  then c\<lparr>calibration_data := (calibration_data c)(step_name \<mapsto>
                         \<lparr>hand_size = hs, landmarks = lms,
                          finger_states = get_finger_states lms, timestamp = now\<rparr>)\<rparr>
                  else c)
        in Inr (c', Some (Progress_info (current_step c + 1) (length calibration_steps)
                            step_name hs
                            (real (current_step c + 1) / real (length calibration_steps)))))"

definition pinch_distance :: "landmark list \<Rightarrow> real" where
  "pinch_distance lms =
     (let thumb_tip = lms ! 4;
          index_tip = lms ! 8;
          dx = lm_x thumb_tip - lm_x index_tip;
          dy = lm_y thumb_tip - lm_y index_tip
      in sqrt (real_of_int (dx * dx + dy * dy)))"

text \<open>
  \<open>_calculate_thresholds\<close>: the object after the call and the returned message.
  \<open>pinch_distance\<close> is lines 172 to 176, read only under the length test of line 171.
\<close>

definition calculate_thresholds :: "calibrator \<Rightarrow> calibrator \<times> message" where
  "calculate_thresholds c =
     (case calibration_data c ''open_hand'' of
        None \<Rightarrow> (c, Literal_msg ''Calibration failed: Missing open hand data'')
      | Some open_hand_data \<Rightarrow>
          let base = hand_size open_hand_data;
              thresholds0 = [];
              thresholds1 =
                (case calibration_data c ''fist'' of
                   None \<Rightarrow> thresholds0
                 | Some fist_data \<Rightarrow>
                     foldl (\<lambda>th finger.
                              if has_key (finger_states fist_data) finger
                              then AList.update finger (base * 0.12) th else th)
                       thresholds0 (map fst (finger_states open_hand_data)));
              thresholds2 =
                (case calibration_data c ''pinch'' of
                   None \<Rightarrow> thresholds1
                 | Some pinch_data \<Rightarrow>
                     if 9 \<le> length (landmarks pinch_data)
                     then AList.update ''pinch'' (pinch_distance (landmarks pinch_data) * 1.5)
                            thresholds1
                     else thresholds1)
          in (c\<lparr>calibration_thresholds := Some thresholds2, base_hand_size := Some base\<rparr>,
              Complete_msg base))"

definition next_step :: "calibrator \<Rightarrow> calibrator \<times> next_result" where
  "next_step c =
     (if current_step c < length calibration_steps - 1
      then
        let c' = c\<lparr>current_step := current_step c + 1\<rparr>
        in (c', Next_info (Step_info (current_step c' + 1) (length calibration_steps)
                  (calibration_steps ! current_step c')
                  (Step_msg (current_step c' + 1) (length calibration_steps)
                     (upper (calibration_steps ! current_step c')))))
      else
        let c1 = c\<lparr>is_calibrating := False, calibration_complete := True\<rparr>;
            (c2, result) = calculate_thresholds c1
        in (c2, Complete result (calibration_thresholds c2) (base_hand_size c2)))"

definition get_gesture_thresholds :: "calibrator \<Rightarrow> (string \<times> real) list option" where
  "get_gesture_thresholds c = calibration_thresholds c"

definition get_base_hand_size :: "calibrator \<Rightarrow> real" where
  "get_base_hand_size c = (case base_hand_size c of None \<Rightarrow> 100 | Some b \<Rightarrow> b)"

definition reset :: "calibrator \<Rightarrow> calibrator" where
  "reset c =
     c\<lparr>calibration_data := Map.empty, current_step := 0, is_calibrating := False,
       calibration_complete := False, calibration_thresholds := None, base_hand_size := None\<rparr>"

subsection \<open>Sequences of calls\<close>

text \<open>
  A caller's use of the object is a sequence of method calls. \<open>run\<close> threads the object
  through them and stops at the first exception.
\<close>

datatype cal_op = Start int int | Process "landmark list" real | Next | Reset

fun apply_op :: "calibrator \<Rightarrow> cal_op \<Rightarrow> py_error + calibrator" where
  "apply_op c (Start w h) = Inr (fst (start_calibration c w h))"
| "apply_op c (Process lms now) =
     (case process_calibration_step c lms now of Inl e \<Rightarrow> Inl e | Inr (c', r) \<Rightarrow> Inr c')"
| "apply_op c Next = Inr (fst (next_step c))"
| "apply_op c Reset = Inr (reset c)"

fun run :: "calibrator \<Rightarrow> cal_op list \<Rightarrow> py_error + calibrator" where
  "run c [] = Inr c"
| "run c (x # xs) = (case apply_op c x of Inl e \<Rightarrow> Inl e | Inr c' \<Rightarrow> run c' xs)"

definition process_calls :: "(landmark list \<times> real) list \<Rightarrow> cal_op list" where
  "process_calls calls = map (\<lambda>(lms, now). Process lms now) calls"

text \<open>
  What every sequence of calls keeps true of the object: the step index stays inside
  \<open>calibration_steps\<close>, and while calibrating, only steps up to the current one have data.
\<close>

definition session_inv :: "calibrator \<Rightarrow> bool" where
  "session_inv c \<longleftrightarrow>
     current_step c < length calibration_steps \<and>
     (is_calibrating c \<longrightarrow>
        (\<forall>name. calibration_data c name \<noteq> None \<longrightarrow>
           (\<exists>i\<le>current_step c. calibration_steps ! i = name)))"

text \<open>The object after \<open>k\<close> calls of \<open>next_step\<close>, and the gesture a returned dictionary names.\<close>

definition advance :: "nat \<Rightarrow> calibrator \<Rightarrow> calibrator" where
  "advance k c = ((\<lambda>c. fst (next_step c)) ^^ k) c"

fun result_gesture :: "next_result \<Rightarrow> string option" where
  "result_gesture (Next_info i) = Some (info_gesture i)"
| "result_gesture (Complete m t b) = None"

text \<open>The finger names of \<open>finger_data\<close>: the keys a finger-state dictionary can have.\<close>

definition finger_names :: "string list" where
  "finger_names = map fst finger_data"

text \<open>
  In a sequence of calls, the \<open>next_step\<close> calls that derive thresholds: made on the last
  step with an \<open>open_hand\<close> snapshot captured. \<open>no_completion c ops\<close> says that running \<open>ops\<close>
  from \<open>c\<close> makes no such call.
\<close>

fun derives :: "calibrator \<Rightarrow> cal_op \<Rightarrow> bool" where
  "derives c Next =
     (\<not> current_step c < length calibration_steps - 1 \<and> calibration_data c ''open_hand'' \<noteq> None)"
| "derives c (Start w h) = False"
| "derives c (Process lms now) = False"
| "derives c Reset = False"

fun no_completion :: "calibrator \<Rightarrow> cal_op list \<Rightarrow> bool" where
  "no_completion c [] = True"
| "no_completion c (x # xs) =
     (\<not> derives c x \<and>
      (case apply_op c x of Inl e \<Rightarrow> True | Inr c' \<Rightarrow> no_completion c' xs))"

subsection \<open>Example hands\<close>

text \<open>
  Three hands of 21 landmarks: an open hand whose wrist and middle-finger base are 200
  pixels apart and whose tips are above their joints, a fist whose tips are below them, and
  a pinch whose thumb tip and index tip are 10 pixels apart.
\<close>

definition example_open_hand :: "landmark list" where
  "example_open_hand =
     [(0, 300, 400), (1, 260, 380), (2, 240, 350), (3, 225, 320), (4, 215, 290),
      (5, 270, 250), (6, 265, 200), (7, 262, 170), (8, 260, 140),
      (9, 300, 200), (10, 300, 150), (11, 300, 120), (12, 300, 90),
      (13, 330, 250), (14, 335, 205), (15, 338, 175), (16, 340, 150),
      (17, 360, 270), (18, 370, 235), (19, 375, 210), (20, 380, 190)]"

definition example_fist :: "landmark list" where
  "example_fist =
     [(0, 300, 400), (1, 260, 380), (2, 245, 350), (3, 250, 320), (4, 270, 330),
      (5, 270, 250), (6, 265, 220), (7, 268, 240), (8, 270, 260),
      (9, 300, 245), (10, 300, 215), (11, 300, 235), (12, 300, 255),
      (13, 330, 250), (14, 335, 225), (15, 333, 245), (16, 331, 262),
      (17, 360, 270), (18, 365, 245), (19, 362, 260), (20, 360, 275)]"

definition example_pinch :: "landmark list" where
  "example_pinch =
     [(0, 300, 400), (1, 260, 380), (2, 245, 340), (3, 248, 300), (4, 250, 200),
      (5, 270, 250), (6, 265, 225), (7, 260, 215), (8, 256, 208),
      (9, 300, 200), (10, 300, 150), (11, 300, 120), (12, 300, 90),
      (13, 330, 250), (14, 335, 205), (15, 338, 175), (16, 340, 150),
      (17, 360, 270), (18, 370, 235), (19, 375, 210), (20, 380, 190)]"

text \<open>A whole calibration with these hands, up to the last step, and the object it leaves.\<close>

definition example_session :: "cal_op list" where
  "example_session =
     [Start 640 480, Process example_open_hand 1, Next, Process example_fist 2, Next,
      Process example_pinch 3, Next, Next]"

definition example_last_step :: calibrator where
  "example_last_step =
     \<lparr>current_step = 4,
      calibration_data =
        [''open_hand'' \<mapsto>
            \<lparr>hand_size = 200, landmarks = example_open_hand,
             finger_states = [(''thumb'', True), (''index'', True), (''middle'', True),
                              (''ring'', True), (''pinky'', True)],
             timestamp = 1\<rparr>,
         ''fist'' \<mapsto>
            \<lparr>hand_size = 155, landmarks = example_fist,
             finger_states = [(''thumb'', False), (''index'', False), (''middle'', False),
                              (''ring'', False), (''pinky'', False)],
             timestamp = 2\<rparr>,
         ''pinch'' \<mapsto>
            \<lparr>hand_size = 200, landmarks = example_pinch,
             finger_states = [(''thumb'', True), (''index'', True), (''middle'', True),
                              (''ring'', True), (''pinky'', True)],
             timestamp = 3\<rparr>],
      is_calibrating = True, calibration_complete = False,
      calibration_thresholds = None, base_hand_size = None\<rparr>"

section \<open>Hand tracker (handtracker.py)\<close>

text \<open>
  The detector's output for one hand is the list of its landmarks' normalised coordinates
  \<open>(lm.x, lm.y)\<close>, floats read as reals. \<open>results\<close> is \<open>self.results.multi_hand_landmarks\<close>,
  the value \<open>process\<close> stores: the empty list stands for every case the guard of
  \<open>get_landmarks_list\<close> treats alike (no \<open>results\<close> attribute, no result, no hand). The two
  buffers are deques of \<open>maxlen\<close> 5, oldest entry first.
\<close>

type_synonym hand = "(real \<times> real) list"

record tracker =
  results :: "hand list"
  landmark_buffer :: "landmark list list"
  position_buffer :: "(int \<times> int) list"
  hand_stability_counter :: int

definition smoothing_buffer_size :: nat where
  "smoothing_buffer_size = 5"

definition init_tracker :: tracker where
  "init_tracker =
     \<lparr>results = [], landmark_buffer = [], position_buffer = [], hand_stability_counter = 0\<rparr>"

text \<open>\<open>deque.append\<close> on a deque with \<open>maxlen\<close>: a full deque drops its oldest entry.\<close>

definition deque_append :: "nat \<Rightarrow> 'a list \<Rightarrow> 'a \<Rightarrow> 'a list" where
  "deque_append maxlen d x = (if length d < maxlen then d @ [x] else tl d @ [x])"

text \<open>\<open>int(r)\<close> of a float truncates towards zero.\<close>

definition py_int :: "real \<Rightarrow> int" where
  "py_int r = (if 0 \<le> r then \<lfloor>r\<rfloor> else \<lceil>r\<rceil>)"

text \<open>Lines 137 to 142: the hand's landmarks in pixels, clamped into the frame.\<close>

definition current_landmarks :: "int \<Rightarrow> int \<Rightarrow> hand \<Rightarrow> landmark list" where
  "current_landmarks h w hand =
     map (\<lambda>(i, lm).
            (i, max 0 (min (py_int (fst lm * real_of_int w)) (w - 1)),
                max 0 (min (py_int (snd lm * real_of_int h)) (h - 1))))
       (enumerate 0 hand)"

text \<open>\<open>np.linspace(start, stop, n)\<close> and the normalised weights of lines 150 and 151.\<close>

definition linspace :: "real \<Rightarrow> real \<Rightarrow> nat \<Rightarrow> real list" where
  "linspace start stop n = map (\<lambda>j. start + real j * ((stop - start) / real (n - 1))) [0..<n]"

definition smoothing_weights :: "nat \<Rightarrow> real list" where
  "smoothing_weights n = (let ws = linspace 0.3 1.0 n in map (\<lambda>w. w / sum_list ws) ws)"

text \<open>
  Lines 154 to 164 for one coordinate (\<open>coord\<close> is \<open>lm_x\<close> or \<open>lm_y\<close>): the weighted sum over
  the buffered frames that have an entry at position \<open>i\<close>, truncated. The sum is exact here;
  the code's float sum can fall just below an integer that the exact sum reaches, and
  \<open>int\<close> then gives one less.
\<close>

definition weighted_average ::
  "(landmark \<Rightarrow> int) \<Rightarrow> real list \<Rightarrow> landmark list list \<Rightarrow> nat \<Rightarrow> int" where
  "weighted_average coord weights buffer i =
     py_int (foldl (\<lambda>avg (j, lms).
                      if i < length lms then avg + real_of_int (coord (lms ! i)) * (weights ! j)
                      else avg)
               0 (enumerate 0 buffer))"

definition smoothed_landmarks :: "int \<Rightarrow> int \<Rightarrow> landmark list list \<Rightarrow> landmark list" where
  "smoothed_landmarks h w buffer =
     (let weights = smoothing_weights (length buffer)
      in map (\<lambda>i. (i, max 0 (min (w - 1) (weighted_average lm_x weights buffer i)),
                       max 0 (min (h - 1) (weighted_average lm_y weights buffer i))))
           [0..<21])"

fun same_index :: "landmark \<times> landmark \<Rightarrow> bool" where
  "same_index ((i1, x1, y1), (i2, x2, y2)) = (i1 = i2)"

fun displacement :: "landmark \<times> landmark \<Rightarrow> real" where
  "displacement ((i1, x1, y1), (i2, x2, y2)) = sqrt (real_of_int ((x2 - x1)\<^sup>2 + (y2 - y1)\<^sup>2))"

definition check_landmark_stability :: "landmark list list \<Rightarrow> real \<Rightarrow> bool" where
  "check_landmark_stability landmark_frames threshold =
     (if length landmark_frames < 2 then False
      else
        let frame1 = hd landmark_frames;
            frame2 = last landmark_frames
        in if length frame1 \<noteq> length frame2 then False
           else
             let distances = map displacement (filter same_index (zip frame1 frame2))
             in if distances \<noteq> []
                then sum_list distances / real (length distances) < threshold
                else False)"

text \<open>
  The verdict of \<open>check_landmark_stability\<close> compares a mean computed in double precision
  with the threshold, and at a threshold within rounding distance of the mean the rounding
  decides. \<open>check_landmark_stability_np\<close> is the same function with \<open>np.sqrt\<close> and \<open>np.mean\<close>
  as parameters; \<open>check_landmark_stability\<close> above is its reading with the real square root
  and the exact mean.
\<close>

fun np_displacement :: "(int \<Rightarrow> real) \<Rightarrow> landmark \<times> landmark \<Rightarrow> real" where
  "np_displacement np_sqrt ((i1, x1, y1), (i2, x2, y2)) = np_sqrt ((x2 - x1)\<^sup>2 + (y2 - y1)\<^sup>2)"

definition check_landmark_stability_np ::
  "(int \<Rightarrow> real) \<Rightarrow> (real list \<Rightarrow> real) \<Rightarrow> landmark list list \<Rightarrow> real \<Rightarrow> bool" where
  "check_landmark_stability_np np_sqrt np_mean landmark_frames threshold =
     (if length landmark_frames < 2 then False
      else
        let frame1 = hd landmark_frames;
            frame2 = last landmark_frames
        in if length frame1 \<noteq> length frame2 then False
           else
             let distances = map (np_displacement np_sqrt) (filter same_index (zip frame1 frame2))
             in if distances \<noteq> [] then np_mean distances < threshold else False)"







text \<open>Lines 176 to 179: what one stability verdict does to the counter.\<close>

definition update_stability_counter :: "bool \<Rightarrow> int \<Rightarrow> int" where
  "update_stability_counter stable' counter =
     (if stable' then counter + 1 else max 0 (counter - 1))"

text \<open>
  \<open>get_landmarks_list\<close>. The frame is its shape \<open>(h, w)\<close>; \<open>None\<close> is a frame whose shape
  does not unpack into height, width and channels: the exception is caught and the empty
  list returned, before anything is stored. The default threshold of
  \<open>check_landmark_stability\<close> is 10.
\<close>

definition get_landmarks_list ::
  "tracker \<Rightarrow> (int \<times> int) option \<Rightarrow> nat \<Rightarrow> tracker \<times> landmark list" where
  "get_landmarks_list t frame hand_index =
     (if results t = [] \<or> length (results t) \<le> hand_index
      then (t\<lparr>hand_stability_counter := 0\<rparr>, [])
      else
        case frame of
          None \<Rightarrow> (t, [])
        | Some (h, w) \<Rightarrow>
            let current = current_landmarks h w (results t ! hand_index);
                t1 = t\<lparr>landmark_buffer :=
                         deque_append smoothing_buffer_size (landmark_buffer t) current\<rparr>
            in if 2 \<le> length (landmark_buffer t1)
               then
                 let smoothed = smoothed_landmarks h w (landmark_buffer t1);
                     t2 = (if 3 \<le> length (landmark_buffer t1)
                           then
                             let recent_frames =
                                   drop (length (landmark_buffer t1) - 3) (landmark_buffer t1);
                                 stable' = check_landmark_stability recent_frames 10
                             in t1\<lparr>hand_stability_counter :=
                                     update_stability_counter stable' (hand_stability_counter t1)\<rparr>
                           else t1)
                 in (t2, smoothed)
               else (t1, current))"



subsection \<open>Frames\<close>

text \<open>
  One frame of the caller's loop: \<open>process\<close> stores the detector's hands, then
  \<open>get_landmarks_list\<close> is called on the frame. \<open>frame_output\<close> is the landmark list the call
  returns.
\<close>

type_synonym frame_input = "hand list \<times> (int \<times> int) option \<times> nat"

fun frame_step :: "tracker \<Rightarrow> frame_input \<Rightarrow> tracker" where
  "frame_step t (hands, frame, hand_index) =
     fst (get_landmarks_list (t\<lparr>results := hands\<rparr>) frame hand_index)"





text \<open>
  The landmark list a frame puts into the buffer, when it has a hand at \<open>hand_index\<close> and a
  well-formed shape.
\<close>

fun detected :: "frame_input \<Rightarrow> landmark list option" where
  "detected (hands, None, hand_index) = None"
| "detected (hands, Some (h, w), hand_index) =
     (if hands = [] \<or> length hands \<le> hand_index then None
      else Some (current_landmarks h w (hands ! hand_index)))"



subsection \<open>Example frames\<close>

text \<open>
  A landmark list with every landmark at the same pixel, a detected hand of 21 landmarks
  held at the middle of a 640 by 480 frame, and the same hand moved to the right by 0.02 of
  the frame's width.
\<close>

definition uniform_landmarks :: "nat \<Rightarrow> int \<Rightarrow> int \<Rightarrow> landmark list" where
  "uniform_landmarks n x y = map (\<lambda>i. (i, x, y)) [0..<n]"

definition example_still_frame :: frame_input where
  "example_still_frame = ([replicate 21 (1 / 2, 1 / 2)], Some (480, 640), 0)"


section \<open>Properties of the calibrator\<close>

subsection \<open>The session invariant\<close>

lemma length_calibration_steps [simp]: "length calibration_steps = 5"
  by (simp add: calibration_steps_def)

lemma distinct_calibration_steps: "distinct calibration_steps"
  by (simp add: calibration_steps_def)

lemma calculate_thresholds_keeps:
  "current_step (fst (calculate_thresholds c)) = current_step c \<and>
   is_calibrating (fst (calculate_thresholds c)) = is_calibrating c \<and>
   calibration_data (fst (calculate_thresholds c)) = calibration_data c \<and>
   calibration_complete (fst (calculate_thresholds c)) = calibration_complete c"
  by (simp add: calculate_thresholds_def Let_def split: option.splits)

lemma session_inv_init: "session_inv init_calibrator"
  by (simp add: session_inv_def init_calibrator_def)

lemma session_inv_start: "session_inv (fst (start_calibration c w h))"
  by (simp add: session_inv_def start_calibration_def Let_def)

lemma session_inv_reset: "session_inv (reset c)"
  by (simp add: session_inv_def reset_def)

lemma session_inv_next:
  assumes "session_inv c"
  shows "session_inv (fst (next_step c))"
proof (cases "current_step c < length calibration_steps - 1")
  case True
  then have eq: "fst (next_step c) = c\<lparr>current_step := current_step c + 1\<rparr>"
    by (simp add: next_step_def Let_def)
  from assms True show ?thesis
    unfolding eq session_inv_def by (auto intro: le_SucI)
next
  case False
  then have "fst (next_step c) =
      fst (calculate_thresholds (c\<lparr>is_calibrating := False, calibration_complete := True\<rparr>))"
    by (simp add: next_step_def Let_def split: prod.splits)
  with assms show ?thesis
    by (simp add: session_inv_def calculate_thresholds_keeps)
qed

lemma session_inv_process:
  assumes "session_inv c" and "process_calibration_step c lms now = Inr (c', r)"
  shows "session_inv c'"
  using assms
  by (auto simp: session_inv_def process_calibration_step_def Let_def split: if_splits)

text \<open>On an object that a sequence of calls has produced, no call raises.\<close>

lemma process_never_raises:
  assumes "session_inv c"
  shows "\<exists>c' r. process_calibration_step c lms now = Inr (c', r)"
  using assms by (simp add: session_inv_def process_calibration_step_def Let_def)

lemma session_inv_apply_op:
  assumes "session_inv c"
  shows "\<exists>c'. apply_op c x = Inr c' \<and> session_inv c'"
proof (cases x)
  case (Process lms now)
  from process_never_raises [OF assms] obtain c' r
    where "process_calibration_step c lms now = Inr (c', r)" by blast
  with assms Process show ?thesis
    by (auto dest: session_inv_process)
qed (use assms in \<open>simp_all add: session_inv_start session_inv_next session_inv_reset\<close>)

lemma session_inv_run:
  assumes "session_inv c"
  shows "\<exists>c'. run c ops = Inr c' \<and> session_inv c'"
  using assms
proof (induction ops arbitrary: c)
  case Nil
  then show ?case by simp
next
  case (Cons x xs)
  from session_inv_apply_op [OF Cons.prems] obtain c1
    where "apply_op c x = Inr c1" "session_inv c1" by blast
  with Cons.IH [of c1] show ?case by simp
qed

subsection \<open>Capturing a step\<close>

lemma run_append:
  "run c (xs @ ys) = (case run c xs of Inl e \<Rightarrow> Inl e | Inr c' \<Rightarrow> run c' ys)"
  by (induction xs arbitrary: c) (auto split: sum.splits)

lemma process_empty_landmarks: "apply_op c (Process [] now) = Inr c"
  by (simp add: process_calibration_step_def)

lemma run_empty_calls:
  assumes "\<forall>(lms, now)\<in>set pre. lms = []"
  shows "run c (process_calls pre) = Inr c"
  using assms
  by (induction pre arbitrary: c)
    (auto simp: process_calls_def process_empty_landmarks simp del: apply_op.simps)

lemma process_stores_first:
  assumes "is_calibrating c" and "lms \<noteq> []" and "current_step c < length calibration_steps"
    and "calibration_data c (calibration_steps ! current_step c) = None"
  shows "apply_op c (Process lms now) =
     Inr (c\<lparr>calibration_data := (calibration_data c)(calibration_steps ! current_step c \<mapsto>
            \<lparr>hand_size = calculate_hand_size lms, landmarks = lms,
             finger_states = get_finger_states lms, timestamp = now\<rparr>)\<rparr>)"
  using assms by (simp add: process_calibration_step_def Let_def)

lemma process_keeps_stored:
  assumes "calibration_data c (calibration_steps ! current_step c) \<noteq> None"
    and "current_step c < length calibration_steps"
  shows "apply_op c (Process lms now) = Inr c"
  using assms by (auto simp: process_calibration_step_def Let_def)

lemma run_keeps_stored:
  assumes "calibration_data c (calibration_steps ! current_step c) \<noteq> None"
    and "current_step c < length calibration_steps"
  shows "run c (process_calls calls) = Inr c"
  using assms
  by (induction calls) (auto simp: process_calls_def process_keeps_stored simp del: apply_op.simps)

lemma entered_step_is_fresh:
  assumes "session_inv c0"
    and "c = fst (start_calibration c0 w h) \<or>
         (is_calibrating c0 \<and> current_step c0 < length calibration_steps - 1 \<and>
          c = fst (next_step c0))"
  shows "is_calibrating c \<and> current_step c < length calibration_steps \<and>
         calibration_data c (calibration_steps ! current_step c) = None"
  using assms(2)
proof
  assume "c = fst (start_calibration c0 w h)"
  then show ?thesis by (simp add: start_calibration_def Let_def)
next
  assume a: "is_calibrating c0 \<and> current_step c0 < length calibration_steps - 1 \<and>
          c = fst (next_step c0)"
  then have eq: "c = c0\<lparr>current_step := current_step c0 + 1\<rparr>"
    by (simp add: next_step_def Let_def)
  have "calibration_data c0 (calibration_steps ! (current_step c0 + 1)) = None"
  proof (rule ccontr)
    assume "calibration_data c0 (calibration_steps ! (current_step c0 + 1)) \<noteq> None"
    with assms(1) a obtain i where i: "i \<le> current_step c0"
      "calibration_steps ! i = calibration_steps ! (current_step c0 + 1)"
      unfolding session_inv_def by blast
    with a have "i = current_step c0 + 1"
      using distinct_calibration_steps by (simp add: nth_eq_iff_index_eq)
    with i show False by simp
  qed
  moreover from a have "is_calibrating c0" "current_step c0 < length calibration_steps - 1"
    by simp_all
  ultimately show ?thesis by (simp add: eq)
qed

text \<open>
  C4: first sample wins. On an object produced by any sequence of calls, once a step has
  become active (by \<open>start_calibration\<close>, or by \<open>next_step\<close> during a calibration), the first
  \<open>process_calibration_step\<close> call with non-empty landmarks stores the snapshot of that
  call (hand size, landmarks, finger states, timestamp), calls with empty landmarks
  before it store nothing, and whatever calls follow during the step, with whatever
  landmarks, the stored snapshot stays the one of that first call.
\<close>

theorem first_sample_wins:
  assumes "run init_calibrator ops = Inr c0"
    and "c = fst (start_calibration c0 w h) \<or>
         (is_calibrating c0 \<and> current_step c0 < length calibration_steps - 1 \<and>
          c = fst (next_step c0))"
    and "\<forall>(l, t)\<in>set pre. l = []"
    and "lms \<noteq> []"
  shows "\<exists>c'. run c (process_calls (pre @ (lms, now) # post)) = Inr c' \<and>
           current_step c' = current_step c \<and>
           calibration_data c' (calibration_steps ! current_step c) =
             Some \<lparr>hand_size = calculate_hand_size lms, landmarks = lms,
                   finger_states = get_finger_states lms, timestamp = now\<rparr>"
proof -
  from session_inv_run [OF session_inv_init, of ops] assms(1) have "session_inv c0"
    by simp
  from entered_step_is_fresh [OF this assms(2)]
  have c: "is_calibrating c" "current_step c < length calibration_steps"
    "calibration_data c (calibration_steps ! current_step c) = None"
    by simp_all
  let ?c1 = "c\<lparr>calibration_data := (calibration_data c)(calibration_steps ! current_step c \<mapsto>
            \<lparr>hand_size = calculate_hand_size lms, landmarks = lms,
             finger_states = get_finger_states lms, timestamp = now\<rparr>)\<rparr>"
  have split: "process_calls (pre @ (lms, now) # post) =
      process_calls pre @ Process lms now # process_calls post"
    by (simp add: process_calls_def)
  have "run ?c1 (process_calls post) = Inr ?c1"
    using c(2) by (intro run_keeps_stored) simp_all
  then have "run c (process_calls (pre @ (lms, now) # post)) = Inr ?c1"
    unfolding split
    by (simp add: run_append run_empty_calls [OF assms(3)]
        process_stores_first [OF c(1) assms(4) c(2) c(3)] del: apply_op.simps)
  then show ?thesis by simp
qed

theorem first_sample_wins_witness:
  "\<exists>c'. run (fst (next_step (fst (start_calibration init_calibrator 640 480))))
          (process_calls [([], 1), ([(0, 10, 20)], 2), ([(0, 30, 40), (1, 5, 6)], 3)]) = Inr c' \<and>
        current_step c' = 1 \<and>
        calibration_data c' ''fist'' =
          Some \<lparr>hand_size = 100, landmarks = [(0, 10, 20)],
                finger_states = [], timestamp = 2\<rparr>"
  using first_sample_wins [of "[Start 640 480]" "fst (start_calibration init_calibrator 640 480)"
      "fst (next_step (fst (start_calibration init_calibrator 640 480)))" 0 0
      "[([], 1)]" "[(0, 10, 20)]" 2 "[([(0, 30, 40), (1, 5, 6)], 3)]"]
  by (simp add: start_calibration_def next_step_def Let_def calibration_steps_def
      calculate_hand_size_def get_finger_states_def finger_data_def)

subsection \<open>Hand size\<close>

text \<open>
  C8: for a landmark list with fewer than 10 entries the hand size is the constant 100;
  with 10 or more entries it is the Euclidean distance between landmark 0 and landmark 9.
\<close>

theorem hand_size_fallback_or_distance:
  "(length lms < 10 \<longrightarrow> calculate_hand_size lms = 100) \<and>
   (10 \<le> length lms \<longrightarrow>
      calculate_hand_size lms =
        sqrt ((real_of_int (lm_x (lms ! 0)) - real_of_int (lm_x (lms ! 9)))\<^sup>2 +
              (real_of_int (lm_y (lms ! 0)) - real_of_int (lm_y (lms ! 9)))\<^sup>2))"
  by (simp add: calculate_hand_size_def Let_def power2_eq_square)

theorem hand_size_fallback_or_distance_witness:
  "calculate_hand_size [(0, 5, 5), (1, 7, 9)] = 100 \<and>
   calculate_hand_size [(0, 0, 0), (1, 0, 0), (2, 0, 0), (3, 0, 0), (4, 0, 0), (5, 0, 0),
     (6, 0, 0), (7, 0, 0), (8, 0, 0), (9, 30, 40)] = 50"
  using hand_size_fallback_or_distance [of "[(0, 5, 5), (1, 7, 9)]"]
    hand_size_fallback_or_distance [of "[(0, 0, 0), (1, 0, 0), (2, 0, 0), (3, 0, 0), (4, 0, 0),
      (5, 0, 0), (6, 0, 0), (7, 0, 0), (8, 0, 0), (9, 30, 40)]"]
    real_sqrt_abs [of 50]
  by simp

subsection \<open>The order of the steps\<close>

lemma next_step_before_last:
  assumes "current_step c < 4"
  shows "next_step c =
     (c\<lparr>current_step := current_step c + 1\<rparr>,
      Next_info (Step_info (current_step c + 2) 5 (calibration_steps ! (current_step c + 1))
        (Step_msg (current_step c + 2) 5 (upper (calibration_steps ! (current_step c + 1))))))"
  using assms by (simp add: next_step_def Let_def)

lemma next_step_last:
  assumes "\<not> current_step c < 4"
  shows "next_step c =
     (let c2 = fst (calculate_thresholds (c\<lparr>is_calibrating := False, calibration_complete := True\<rparr>));
          m = snd (calculate_thresholds (c\<lparr>is_calibrating := False, calibration_complete := True\<rparr>))
      in (c2, Complete m (calibration_thresholds c2) (base_hand_size c2)))"
  using assms by (simp add: next_step_def Let_def split: prod.splits)

lemma advance_Suc: "advance (Suc k) c = fst (next_step (advance k c))"
  by (simp add: advance_def)

lemma advance_0: "advance 0 c = c"
  by (simp add: advance_def)

lemma advance_from_start:
  assumes "current_step c = 0" and "is_calibrating c" and "k \<le> 4"
  shows "advance k c = c\<lparr>current_step := k\<rparr>"
  using assms(3)
proof (induction k)
  case 0
  then show ?case using assms(1) by (simp add: advance_0)
next
  case (Suc k)
  then have "advance k c = c\<lparr>current_step := k\<rparr>" and "k < 4" by simp_all
  then show ?case
    by (simp add: advance_Suc next_step_before_last)
qed

text \<open>
  C3: after \<open>start_calibration\<close> the session is on gesture \<open>open_hand\<close>; each of the first four
  \<open>next_step\<close> calls moves to the next gesture of the fixed order open_hand, fist, pinch,
  pointing, victory and keeps the session calibrating; the fifth call, made on the last step,
  returns the dictionary with \<open>complete\<close>, leaves \<open>is_calibrating\<close> false and is the call of
  \<open>_calculate_thresholds\<close>: the object and the message are those of the derivation.
\<close>

theorem five_advances_complete:
  fixes c :: calibrator
  shows "info_gesture (snd (start_calibration c w h)) = ''open_hand'' \<and>
    is_calibrating (fst (start_calibration c w h)) \<and>
    (\<forall>k<4. current_step (advance k (fst (start_calibration c w h))) = k \<and>
       is_calibrating (advance (Suc k) (fst (start_calibration c w h))) \<and>
       result_gesture (snd (next_step (advance k (fst (start_calibration c w h))))) =
         Some (calibration_steps ! Suc k)) \<and>
    map (\<lambda>k. calibration_steps ! current_step (advance k (fst (start_calibration c w h))))
      [0..<5] = [''open_hand'', ''fist'', ''pinch'', ''pointing'', ''victory''] \<and>
    is_complete (snd (next_step (advance 4 (fst (start_calibration c w h))))) \<and>
    \<not> is_calibrating (advance 5 (fst (start_calibration c w h))) \<and>
    calibration_complete (advance 5 (fst (start_calibration c w h))) \<and>
    advance 5 (fst (start_calibration c w h)) =
      fst (calculate_thresholds
        ((advance 4 (fst (start_calibration c w h)))
           \<lparr>is_calibrating := False, calibration_complete := True\<rparr>)) \<and>
    complete_message (snd (next_step (advance 4 (fst (start_calibration c w h))))) =
      snd (calculate_thresholds
        ((advance 4 (fst (start_calibration c w h)))
           \<lparr>is_calibrating := False, calibration_complete := True\<rparr>))"
proof -
  let ?c0 = "fst (start_calibration c w h)"
  have c0: "current_step ?c0 = 0" "is_calibrating ?c0"
    by (simp_all add: start_calibration_def Let_def)
  have adv: "advance k ?c0 = ?c0\<lparr>current_step := k\<rparr>" if "k \<le> 4" for k
    using advance_from_start [OF c0 that] .
  have g0: "info_gesture (snd (start_calibration c w h)) = ''open_hand''"
    by (simp add: start_calibration_def Let_def calibration_steps_def)
  have steps: "\<forall>k<4. current_step (advance k ?c0) = k \<and>
       is_calibrating (advance (Suc k) ?c0) \<and>
       result_gesture (snd (next_step (advance k ?c0))) = Some (calibration_steps ! Suc k)"
  proof (intro allI impI)
    fix k :: nat assume k: "k < 4"
    then have "advance k ?c0 = ?c0\<lparr>current_step := k\<rparr>"
      and "advance (Suc k) ?c0 = ?c0\<lparr>current_step := Suc k\<rparr>"
      by (simp_all add: adv)
    with k c0 show "current_step (advance k ?c0) = k \<and>
       is_calibrating (advance (Suc k) ?c0) \<and>
       result_gesture (snd (next_step (advance k ?c0))) = Some (calibration_steps ! Suc k)"
      by (simp add: next_step_before_last)
  qed
  have names: "map (\<lambda>k. calibration_steps ! current_step (advance k ?c0)) [0..<5] =
      [''open_hand'', ''fist'', ''pinch'', ''pointing'', ''victory'']"
  proof -
    have "map (\<lambda>k. calibration_steps ! current_step (advance k ?c0)) [0..<5] =
        map (\<lambda>k. calibration_steps ! k) [0..<5]"
      by (rule map_cong) (simp_all add: adv)
    also have "\<dots> = calibration_steps"
      using map_nth [of calibration_steps] by simp
    finally show ?thesis by (simp add: calibration_steps_def)
  qed
  have a4: "advance 4 ?c0 = ?c0\<lparr>current_step := 4\<rparr>"
    by (simp add: adv)
  then have last: "\<not> current_step (advance 4 ?c0) < 4"
    by simp
  have a5: "advance 5 ?c0 = fst (next_step (advance 4 ?c0))"
    using advance_Suc [of 4 ?c0] by (simp add: eval_nat_numeral)
  note fin = next_step_last [OF last]
  have final: "is_complete (snd (next_step (advance 4 ?c0)))"
    "advance 5 ?c0 = fst (calculate_thresholds
        ((advance 4 ?c0)\<lparr>is_calibrating := False, calibration_complete := True\<rparr>))"
    "complete_message (snd (next_step (advance 4 ?c0))) = snd (calculate_thresholds
        ((advance 4 ?c0)\<lparr>is_calibrating := False, calibration_complete := True\<rparr>))"
    unfolding a5 fin by (simp_all add: Let_def)
  have flags: "\<not> is_calibrating (advance 5 ?c0)" "calibration_complete (advance 5 ?c0)"
    unfolding final(2) by (simp_all add: calculate_thresholds_keeps)
  from g0 c0(2) steps names final flags show ?thesis
    by blast
qed


theorem five_advances_complete_witness:
  "result_gesture (snd (next_step (advance 0 (fst (start_calibration init_calibrator 640 480))))) =
     Some ''fist'' \<and>
   result_gesture (snd (next_step (advance 3 (fst (start_calibration init_calibrator 640 480))))) =
     Some ''victory'' \<and>
   is_complete (snd (next_step (advance 4 (fst (start_calibration init_calibrator 640 480))))) \<and>
   \<not> is_calibrating (advance 5 (fst (start_calibration init_calibrator 640 480)))"
proof -
  note t = five_advances_complete [of init_calibrator 640 480]
  from t have steps: "\<forall>k<4.
      result_gesture (snd (next_step (advance k (fst (start_calibration init_calibrator 640 480))))) =
        Some (calibration_steps ! Suc k)"
    by blast
  from steps have "result_gesture
      (snd (next_step (advance 0 (fst (start_calibration init_calibrator 640 480))))) = Some ''fist''"
    by (simp add: calibration_steps_def)
  moreover from steps have "result_gesture
      (snd (next_step (advance 3 (fst (start_calibration init_calibrator 640 480))))) = Some ''victory''"
    by (simp add: calibration_steps_def)
  ultimately show ?thesis using t by blast
qed

subsection \<open>Deriving the thresholds\<close>

lemma example_hand_sizes:
  "calculate_hand_size example_open_hand = 200"
  "calculate_hand_size example_fist = 155"
  "calculate_hand_size example_pinch = 200"
  using real_sqrt_abs [of 200] real_sqrt_abs [of 155]
  by (simp_all add: calculate_hand_size_def example_open_hand_def example_fist_def
      example_pinch_def)

lemma example_finger_states:
  "get_finger_states example_open_hand =
     [(''thumb'', True), (''index'', True), (''middle'', True), (''ring'', True), (''pinky'', True)]"
  "get_finger_states example_fist =
     [(''thumb'', False), (''index'', False), (''middle'', False), (''ring'', False),
      (''pinky'', False)]"
  "get_finger_states example_pinch =
     [(''thumb'', True), (''index'', True), (''middle'', True), (''ring'', True), (''pinky'', True)]"
  by (simp_all add: get_finger_states_def finger_data_def example_open_hand_def example_fist_def
      example_pinch_def)

lemma example_hands_nonempty:
  "example_open_hand \<noteq> []" "example_fist \<noteq> []" "example_pinch \<noteq> []"
  by (simp_all add: example_open_hand_def example_fist_def example_pinch_def)

lemma example_session_runs: "run init_calibrator example_session = Inr example_last_step"
  by (simp add: example_session_def init_calibrator_def start_calibration_def
      process_calibration_step_def next_step_def Let_def calibration_steps_def
      example_hand_sizes example_finger_states example_hands_nonempty example_last_step_def
      fun_upd_twist)

lemma has_key_iff: "has_key d k \<longleftrightarrow> k \<in> set (map fst d)"
  by (induction d) auto

lemma map_of_foldl_update:
  "map_of (foldl (\<lambda>th k. if P k then AList.update k v th else th) th0 ks) f =
     (if f \<in> set ks \<and> P f then Some v else map_of th0 f)"
  by (induction ks arbitrary: th0) (auto simp: update_conv')

lemma finger_names_not_pinch: "finger \<in> set finger_names \<Longrightarrow> finger \<noteq> ''pinch''"
  by (auto simp: finger_names_def finger_data_def)

lemma calculate_thresholds_some:
  assumes "calibration_data c ''open_hand'' = Some oh"
  shows "\<exists>th. calculate_thresholds c =
           (c\<lparr>calibration_thresholds := Some th, base_hand_size := Some (hand_size oh)\<rparr>,
            Complete_msg (hand_size oh))"
  using assms by (simp add: calculate_thresholds_def Let_def) (rule exI, rule refl)

lemma calculate_thresholds_finger:
  assumes "calibration_data c ''open_hand'' = Some oh"
    and "calibration_data c ''fist'' = Some fi"
    and "finger \<noteq> ''pinch''"
    and "has_key (finger_states oh) finger"
    and "has_key (finger_states fi) finger"
    and "calibration_thresholds (fst (calculate_thresholds c)) = Some th"
  shows "map_of th finger = Some (hand_size oh * 0.12)"
proof -
  let ?th1 = "foldl (\<lambda>th k. if has_key (finger_states fi) k
                             then AList.update k (hand_size oh * 0.12) th else th)
                [] (map fst (finger_states oh))"
  from assms(4) have "finger \<in> set (map fst (finger_states oh))"
    by (simp add: has_key_iff)
  with assms(5) have th1: "map_of ?th1 finger = Some (hand_size oh * 0.12)"
    by (simp only: map_of_foldl_update) simp
  from assms(1,2,6) have "th = ?th1 \<or> (\<exists>v. th = AList.update ''pinch'' v ?th1)"
    by (auto simp: calculate_thresholds_def Let_def split: option.splits if_splits)
  with th1 assms(3) show ?thesis
    by (auto simp: update_conv')
qed

lemma calculate_thresholds_pinch:
  assumes "calibration_data c ''open_hand'' = Some oh"
    and "calibration_data c ''pinch'' = Some p"
    and "9 \<le> length (landmarks p)"
    and "calibration_thresholds (fst (calculate_thresholds c)) = Some th"
  shows "map_of th ''pinch'' = Some (pinch_distance (landmarks p) * 1.5)"
  using assms
  by (auto simp: calculate_thresholds_def Let_def update_conv' split: option.splits)

lemma calculate_thresholds_success:
  assumes "calibration_data c ''open_hand'' = Some oh"
  shows "\<exists>th. calculate_thresholds c =
           (c\<lparr>calibration_thresholds := Some th, base_hand_size := Some (hand_size oh)\<rparr>,
            Complete_msg (hand_size oh)) \<and>
         (\<forall>fi finger. calibration_data c ''fist'' = Some fi \<longrightarrow> finger \<noteq> ''pinch'' \<longrightarrow>
            has_key (finger_states oh) finger \<longrightarrow>
            has_key (finger_states fi) finger \<longrightarrow>
            map_of th finger = Some (hand_size oh * 0.12)) \<and>
         (\<forall>p. calibration_data c ''pinch'' = Some p \<longrightarrow> 9 \<le> length (landmarks p) \<longrightarrow>
            map_of th ''pinch'' = Some (pinch_distance (landmarks p) * 1.5))"
proof -
  from calculate_thresholds_some [OF assms] obtain th where
    th: "calculate_thresholds c =
           (c\<lparr>calibration_thresholds := Some th, base_hand_size := Some (hand_size oh)\<rparr>,
            Complete_msg (hand_size oh))"
    by blast
  then have stored: "calibration_thresholds (fst (calculate_thresholds c)) = Some th"
    by simp
  show ?thesis
    using th calculate_thresholds_finger [OF assms _ _ _ _ stored]
      calculate_thresholds_pinch [OF assms _ _ stored]
    by blast
qed

lemma pinch_distance_euclidean:
  "pinch_distance lms =
     sqrt ((real_of_int (lm_x (lms ! 4)) - real_of_int (lm_x (lms ! 8)))\<^sup>2 +
           (real_of_int (lm_y (lms ! 4)) - real_of_int (lm_y (lms ! 8)))\<^sup>2)"
  by (simp add: pinch_distance_def Let_def power2_eq_square)

text \<open>
  C1: on the \<open>next_step\<close> call of the last step, with an \<open>open_hand\<close> snapshot captured, the
  derivation succeeds and returns and stores a thresholds dictionary in which: if a \<open>fist\<close>
  snapshot was captured, every finger name that is a key of the finger states of both the
  \<open>open_hand\<close> and the \<open>fist\<close> snapshot has the threshold \<open>hand_size * 0.12\<close>, with the hand
  size of the \<open>open_hand\<close> snapshot; and if a \<open>pinch\<close> snapshot with at least 9 landmarks was
  captured, the key \<open>pinch\<close> has the Euclidean distance between its landmarks 4 and 8,
  times 1.5. With hand size 200 every shared finger has threshold 24, and with the tips 10
  apart the pinch threshold is 15 (the witness).
\<close>

theorem threshold_derivation:
  assumes "\<not> current_step c < length calibration_steps - 1"
    and "calibration_data c ''open_hand'' = Some oh"
  shows "\<exists>th. snd (next_step c) =
            Complete (Complete_msg (hand_size oh)) (Some th) (Some (hand_size oh)) \<and>
         get_gesture_thresholds (fst (next_step c)) = Some th \<and>
         (\<forall>fi finger. calibration_data c ''fist'' = Some fi \<longrightarrow> finger \<in> set finger_names \<longrightarrow>
            has_key (finger_states oh) finger \<longrightarrow>
            has_key (finger_states fi) finger \<longrightarrow>
            map_of th finger = Some (hand_size oh * 0.12)) \<and>
         (\<forall>p. calibration_data c ''pinch'' = Some p \<longrightarrow> 9 \<le> length (landmarks p) \<longrightarrow>
            map_of th ''pinch'' =
              Some (sqrt ((real_of_int (lm_x (landmarks p ! 4)) -
                           real_of_int (lm_x (landmarks p ! 8)))\<^sup>2 +
                          (real_of_int (lm_y (landmarks p ! 4)) -
                           real_of_int (lm_y (landmarks p ! 8)))\<^sup>2) * 1.5))"
proof -
  let ?c1 = "c\<lparr>is_calibrating := False, calibration_complete := True\<rparr>"
  have "calibration_data ?c1 ''open_hand'' = Some oh"
    using assms(2) by simp
  from calculate_thresholds_success [OF this] obtain th where
    th: "calculate_thresholds ?c1 =
           (?c1\<lparr>calibration_thresholds := Some th, base_hand_size := Some (hand_size oh)\<rparr>,
            Complete_msg (hand_size oh))"
    and fingers: "\<forall>fi finger. calibration_data ?c1 ''fist'' = Some fi \<longrightarrow> finger \<noteq> ''pinch'' \<longrightarrow>
            has_key (finger_states oh) finger \<longrightarrow>
            has_key (finger_states fi) finger \<longrightarrow>
            map_of th finger = Some (hand_size oh * 0.12)"
    and pinch: "\<forall>p. calibration_data ?c1 ''pinch'' = Some p \<longrightarrow> 9 \<le> length (landmarks p) \<longrightarrow>
            map_of th ''pinch'' = Some (pinch_distance (landmarks p) * 1.5)"
    by blast
  have "next_step c =
      (?c1\<lparr>calibration_thresholds := Some th, base_hand_size := Some (hand_size oh)\<rparr>,
       Complete (Complete_msg (hand_size oh)) (Some th) (Some (hand_size oh)))"
    using assms(1) by (simp add: next_step_def Let_def th)
  then have "snd (next_step c) =
        Complete (Complete_msg (hand_size oh)) (Some th) (Some (hand_size oh))"
    and "get_gesture_thresholds (fst (next_step c)) = Some th"
    by (simp_all add: get_gesture_thresholds_def)
  moreover from fingers have "\<forall>fi finger. calibration_data c ''fist'' = Some fi \<longrightarrow>
            finger \<in> set finger_names \<longrightarrow>
            has_key (finger_states oh) finger \<longrightarrow>
            has_key (finger_states fi) finger \<longrightarrow>
            map_of th finger = Some (hand_size oh * 0.12)"
    by (auto dest: finger_names_not_pinch)
  moreover from pinch have "\<forall>p. calibration_data c ''pinch'' = Some p \<longrightarrow>
            9 \<le> length (landmarks p) \<longrightarrow>
            map_of th ''pinch'' =
              Some (sqrt ((real_of_int (lm_x (landmarks p ! 4)) -
                           real_of_int (lm_x (landmarks p ! 8)))\<^sup>2 +
                          (real_of_int (lm_y (landmarks p ! 4)) -
                           real_of_int (lm_y (landmarks p ! 8)))\<^sup>2) * 1.5)"
    by (simp add: pinch_distance_euclidean)
  ultimately show ?thesis by blast
qed

theorem threshold_derivation_witness:
  "\<exists>th. snd (next_step example_last_step) = Complete (Complete_msg 200) (Some th) (Some 200) \<and>
        get_gesture_thresholds (fst (next_step example_last_step)) = Some th \<and>
        map_of th ''thumb'' = Some 24 \<and> map_of th ''index'' = Some 24 \<and>
        map_of th ''middle'' = Some 24 \<and> map_of th ''ring'' = Some 24 \<and>
        map_of th ''pinky'' = Some 24 \<and> map_of th ''pinch'' = Some 15"
proof -
  let ?oh = "\<lparr>hand_size = 200, landmarks = example_open_hand,
             finger_states = [(''thumb'', True), (''index'', True), (''middle'', True),
                              (''ring'', True), (''pinky'', True)],
             timestamp = 1\<rparr>"
  let ?fi = "\<lparr>hand_size = 155, landmarks = example_fist,
             finger_states = [(''thumb'', False), (''index'', False), (''middle'', False),
                              (''ring'', False), (''pinky'', False)],
             timestamp = 2\<rparr>"
  let ?p = "\<lparr>hand_size = 200, landmarks = example_pinch,
             finger_states = [(''thumb'', True), (''index'', True), (''middle'', True),
                              (''ring'', True), (''pinky'', True)],
             timestamp = 3\<rparr>"
  have last: "\<not> current_step example_last_step < length calibration_steps - 1"
    by (simp add: example_last_step_def)
  have oh: "calibration_data example_last_step ''open_hand'' = Some ?oh"
    and fi: "calibration_data example_last_step ''fist'' = Some ?fi"
    and p: "calibration_data example_last_step ''pinch'' = Some ?p"
    by (simp_all add: example_last_step_def)
  from threshold_derivation [OF last oh] obtain th where
    res: "snd (next_step example_last_step) =
            Complete (Complete_msg (hand_size ?oh)) (Some th) (Some (hand_size ?oh))"
      "get_gesture_thresholds (fst (next_step example_last_step)) = Some th"
    and fingers: "\<And>finger. finger \<in> set finger_names \<Longrightarrow>
            has_key (finger_states ?oh) finger \<Longrightarrow>
            has_key (finger_states ?fi) finger \<Longrightarrow>
            map_of th finger = Some (hand_size ?oh * 0.12)"
    and pinch: "9 \<le> length (landmarks ?p) \<Longrightarrow>
            map_of th ''pinch'' =
              Some (sqrt ((real_of_int (lm_x (landmarks ?p ! 4)) -
                           real_of_int (lm_x (landmarks ?p ! 8)))\<^sup>2 +
                          (real_of_int (lm_y (landmarks ?p ! 4)) -
                           real_of_int (lm_y (landmarks ?p ! 8)))\<^sup>2) * 1.5)"
    using fi p by blast
  have "map_of th ''thumb'' = Some 24" "map_of th ''index'' = Some 24"
    "map_of th ''middle'' = Some 24" "map_of th ''ring'' = Some 24"
    "map_of th ''pinky'' = Some 24"
    using fingers [of "''thumb''"] fingers [of "''index''"] fingers [of "''middle''"]
      fingers [of "''ring''"] fingers [of "''pinky''"]
    by (simp_all add: finger_names_def finger_data_def)
  moreover have "map_of th ''pinch'' = Some 15"
    using pinch real_sqrt_abs [of 10] by (simp add: example_pinch_def)
  ultimately show ?thesis using res by simp
qed

subsection \<open>Reset and the absent thresholds\<close>

lemma example_completion:
  "next_step example_last_step =
     (example_last_step\<lparr>is_calibrating := False, calibration_complete := True,
        calibration_thresholds :=
          Some [(''thumb'', 24), (''index'', 24), (''middle'', 24), (''ring'', 24),
                (''pinky'', 24), (''pinch'', 15)],
        base_hand_size := Some 200\<rparr>,
      Complete (Complete_msg 200)
        (Some [(''thumb'', 24), (''index'', 24), (''middle'', 24), (''ring'', 24),
               (''pinky'', 24), (''pinch'', 15)])
        (Some 200))"
proof -
  have "pinch_distance example_pinch = 10"
    using real_sqrt_abs [of 10] by (simp add: pinch_distance_def example_pinch_def)
  moreover have "9 \<le> length example_pinch"
    by (simp add: example_pinch_def)
  moreover have "current_step example_last_step = 4"
    and "calibration_data example_last_step ''open_hand'' =
      Some \<lparr>hand_size = 200, landmarks = example_open_hand,
             finger_states = [(''thumb'', True), (''index'', True), (''middle'', True),
                              (''ring'', True), (''pinky'', True)],
             timestamp = 1\<rparr>"
    and "calibration_data example_last_step ''fist'' =
      Some \<lparr>hand_size = 155, landmarks = example_fist,
             finger_states = [(''thumb'', False), (''index'', False), (''middle'', False),
                              (''ring'', False), (''pinky'', False)],
             timestamp = 2\<rparr>"
    and "calibration_data example_last_step ''pinch'' =
      Some \<lparr>hand_size = 200, landmarks = example_pinch,
             finger_states = [(''thumb'', True), (''index'', True), (''middle'', True),
                              (''ring'', True), (''pinky'', True)],
             timestamp = 3\<rparr>"
    by (simp_all add: example_last_step_def)
  ultimately show ?thesis
    by (simp add: next_step_def calculate_thresholds_def Let_def)
qed

text \<open>
  C9: \<open>reset\<close> on any object, also one that has completed a calibration, puts
  \<open>current_step\<close> back to 0, empties the captured snapshots, leaves \<open>is_calibrating\<close> and
  \<open>calibration_complete\<close> false and the thresholds absent: \<open>get_gesture_thresholds\<close> returns
  \<open>None\<close>. The object is the new object again.
\<close>

theorem reset_clears_session:
  "current_step (reset c) = 0 \<and>
   calibration_data (reset c) = Map.empty \<and>
   \<not> is_calibrating (reset c) \<and>
   \<not> calibration_complete (reset c) \<and>
   get_gesture_thresholds (reset c) = None \<and>
   reset c = init_calibrator"
  by (simp add: reset_def get_gesture_thresholds_def init_calibrator_def)

theorem reset_clears_session_witness:
  "get_gesture_thresholds (fst (next_step example_last_step)) \<noteq> None \<and>
   calibration_complete (fst (next_step example_last_step)) \<and>
   current_step (fst (next_step example_last_step)) = 4 \<and>
   current_step (reset (fst (next_step example_last_step))) = 0 \<and>
   calibration_data (reset (fst (next_step example_last_step))) = Map.empty \<and>
   \<not> is_calibrating (reset (fst (next_step example_last_step))) \<and>
   \<not> calibration_complete (reset (fst (next_step example_last_step))) \<and>
   get_gesture_thresholds (reset (fst (next_step example_last_step))) = None"
proof -
  have "get_gesture_thresholds (fst (next_step example_last_step)) \<noteq> None"
    "calibration_complete (fst (next_step example_last_step))"
    "current_step (fst (next_step example_last_step)) = 4"
    unfolding example_completion
    by (simp_all add: get_gesture_thresholds_def example_last_step_def)
  with reset_clears_session [of "fst (next_step example_last_step)"]
  show ?thesis by blast
qed

lemma thresholds_absent_apply_op:
  assumes "calibration_thresholds c = None" and "base_hand_size c = None"
    and "\<not> derives c x" and "apply_op c x = Inr c'"
  shows "calibration_thresholds c' = None \<and> base_hand_size c' = None"
proof (cases x)
  case (Start w h)
  with assms show ?thesis by (auto simp: start_calibration_def Let_def)
next
  case (Process lms now)
  with assms show ?thesis
    by (auto simp: process_calibration_step_def Let_def split: if_splits)
next
  case Next
  with assms show ?thesis
    by (auto simp: next_step_def calculate_thresholds_def Let_def split: if_splits)
next
  case Reset
  with assms show ?thesis by (auto simp: reset_def)
qed

lemma thresholds_absent_run:
  assumes "calibration_thresholds c = None" and "base_hand_size c = None"
    and "no_completion c ops" and "run c ops = Inr c'"
  shows "calibration_thresholds c' = None \<and> base_hand_size c' = None"
  using assms
proof (induction ops arbitrary: c)
  case Nil
  then show ?case by simp
next
  case (Cons x xs)
  from Cons.prems(4) obtain c1 where c1: "apply_op c x = Inr c1" and rest: "run c1 xs = Inr c'"
    by (auto split: sum.splits)
  from Cons.prems(3) c1 have nd: "\<not> derives c x" and nc: "no_completion c1 xs"
    by simp_all
  from thresholds_absent_apply_op [OF Cons.prems(1,2) nd c1]
  have "calibration_thresholds c1 = None" "base_hand_size c1 = None" by simp_all
  from Cons.IH [OF this nc rest] show ?case .
qed

text \<open>
  C10: on a new object, and on any object after \<open>reset\<close>, as long as the calls made since
  contain no \<open>next_step\<close> that derives thresholds, no call raises,
  \<open>get_gesture_thresholds\<close> returns \<open>None\<close> and \<open>get_base_hand_size\<close> returns the default 100.
\<close>

theorem no_thresholds_before_completion:
  assumes "c0 = init_calibrator \<or> c0 = reset c"
    and "no_completion c0 ops"
  shows "\<exists>c'. run c0 ops = Inr c' \<and>
           get_gesture_thresholds c' = None \<and> get_base_hand_size c' = 100"
proof -
  from assms(1) have c0: "calibration_thresholds c0 = None" "base_hand_size c0 = None"
    by (auto simp: init_calibrator_def reset_def)
  from assms(1) have inv: "session_inv c0"
    using session_inv_init session_inv_reset by auto
  from session_inv_run [OF inv, of ops] obtain c' where r: "run c0 ops = Inr c'"
    by blast
  from thresholds_absent_run [OF c0 assms(2) r] r show ?thesis
    by (simp add: get_gesture_thresholds_def get_base_hand_size_def)
qed

theorem no_thresholds_before_completion_witness:
  "get_gesture_thresholds (fst (next_step example_last_step)) \<noteq> None \<and>
   get_base_hand_size (fst (next_step example_last_step)) = 200 \<and>
   (\<exists>c'. run (reset (fst (next_step example_last_step)))
            [Start 640 480, Next, Process example_fist 2, Next, Next, Next, Next] = Inr c' \<and>
          get_gesture_thresholds c' = None \<and> get_base_hand_size c' = 100)"
proof -
  have "no_completion (reset (fst (next_step example_last_step)))
      [Start 640 480, Next, Process example_fist 2, Next, Next, Next, Next]"
    by (simp add: reset_def start_calibration_def next_step_def process_calibration_step_def
        Let_def calibration_steps_def calculate_thresholds_def example_fist_def)
  from no_thresholds_before_completion [OF _ this]
  have "\<exists>c'. run (reset (fst (next_step example_last_step)))
            [Start 640 480, Next, Process example_fist 2, Next, Next, Next, Next] = Inr c' \<and>
          get_gesture_thresholds c' = None \<and> get_base_hand_size c' = 100"
    by blast
  moreover have "get_gesture_thresholds (fst (next_step example_last_step)) \<noteq> None"
    "get_base_hand_size (fst (next_step example_last_step)) = 200"
    unfolding example_completion
    by (simp_all add: get_gesture_thresholds_def get_base_hand_size_def)
  ultimately show ?thesis by blast
qed

text \<open>
  C2, where it fails: a calibration completes with the example hands, \<open>start_calibration\<close>
  starts another one, and \<open>next_step\<close> is called through to the last step with nothing
  captured. The last call returns the failure message together with the thresholds and the
  base hand size of the earlier calibration, which \<open>start_calibration\<close> has not removed, and
  \<open>get_gesture_thresholds\<close> still returns them.
\<close>

theorem stale_thresholds_after_failed_recalibration:
  "\<exists>c. run init_calibrator (example_session @ [Next, Start 640 480, Next, Next, Next, Next]) =
          Inr c \<and>
        current_step c = 4 \<and> calibration_data c = Map.empty \<and>
        snd (next_step c) =
          Complete (Literal_msg ''Calibration failed: Missing open hand data'')
            (Some [(''thumb'', 24), (''index'', 24), (''middle'', 24), (''ring'', 24),
                   (''pinky'', 24), (''pinch'', 15)])
            (Some 200) \<and>
        get_gesture_thresholds (fst (next_step c)) =
          Some [(''thumb'', 24), (''index'', 24), (''middle'', 24), (''ring'', 24),
                (''pinky'', 24), (''pinch'', 15)]"
proof -
  have "run init_calibrator example_session = Inr example_last_step"
    by (rule example_session_runs)
  then have "run init_calibrator
      (example_session @ [Next, Start 640 480, Next, Next, Next, Next]) =
      run (fst (next_step example_last_step)) [Start 640 480, Next, Next, Next, Next]"
    by (simp add: run_append)
  also have "\<dots> = Inr (example_last_step\<lparr>calibration_data := Map.empty, current_step := 4,
        is_calibrating := True, calibration_complete := False,
        calibration_thresholds :=
          Some [(''thumb'', 24), (''index'', 24), (''middle'', 24), (''ring'', 24),
                (''pinky'', 24), (''pinch'', 15)],
        base_hand_size := Some 200\<rparr>)"
    unfolding example_completion
    by (simp add: start_calibration_def next_step_def Let_def)
  finally show ?thesis
    by (simp add: next_step_def calculate_thresholds_def Let_def get_gesture_thresholds_def)
qed

section \<open>Properties of the hand tracker\<close>

subsection \<open>The stability predicate over the reals\<close>






subsection \<open>The stability predicate in double precision\<close>














lemma np_displacement_exact: "np_displacement (\<lambda>n. sqrt (real_of_int n)) p = displacement p"
  by (cases p rule: displacement.cases) simp

lemma check_landmark_stability_np_exact:
  "check_landmark_stability_np (\<lambda>n. sqrt (real_of_int n)) (\<lambda>ds. sum_list ds / real (length ds))
     frames threshold = check_landmark_stability frames threshold"
  by (simp add: check_landmark_stability_np_def check_landmark_stability_def
      np_displacement_exact [abs_def] Let_def)








subsection \<open>The stability counter\<close>

lemma detected_cases:
  assumes "detected f = Some c"
  obtains hands h w hand_index where "f = (hands, Some (h, w), hand_index)"
    and "hands \<noteq> []" and "hand_index < length hands"
    and "c = current_landmarks h w (hands ! hand_index)"
  using assms by (cases f rule: detected.cases) (auto split: if_splits)

lemma frame_step_detected:
  assumes "detected f = Some c"
  shows "landmark_buffer (frame_step t f) =
           deque_append smoothing_buffer_size (landmark_buffer t) c"
    and "hand_stability_counter (frame_step t f) =
           (let buffer = deque_append smoothing_buffer_size (landmark_buffer t) c
            in if 3 \<le> length buffer
               then update_stability_counter
                      (check_landmark_stability (drop (length buffer - 3) buffer) 10)
                      (hand_stability_counter t)
               else hand_stability_counter t)"
proof -
  from assms obtain hands h w hand_index where f: "f = (hands, Some (h, w), hand_index)"
    and "hands \<noteq> []" "hand_index < length hands"
    "c = current_landmarks h w (hands ! hand_index)"
    by (rule detected_cases)
  then show "landmark_buffer (frame_step t f) =
           deque_append smoothing_buffer_size (landmark_buffer t) c"
    and "hand_stability_counter (frame_step t f) =
           (let buffer = deque_append smoothing_buffer_size (landmark_buffer t) c
            in if 3 \<le> length buffer
               then update_stability_counter
                      (check_landmark_stability (drop (length buffer - 3) buffer) 10)
                      (hand_stability_counter t)
               else hand_stability_counter t)"
    by (simp_all add: get_landmarks_list_def Let_def)
qed









lemma current_landmarks_replicate:
  "current_landmarks h w (replicate n (a, b)) =
     uniform_landmarks n (max 0 (min (py_int (a * real_of_int w)) (w - 1)))
       (max 0 (min (py_int (b * real_of_int h)) (h - 1)))"
  by (simp add: current_landmarks_def uniform_landmarks_def enumerate_eq_zip zip_replicate2)

lemma detected_example_still:
  "detected example_still_frame = Some (uniform_landmarks 21 320 240)"
  by (simp add: example_still_frame_def current_landmarks_replicate py_int_def)



lemma length_uniform_landmarks [simp]: "length (uniform_landmarks n x y) = n"
  by (simp add: uniform_landmarks_def)












subsection \<open>Which landmark sets the stability is evaluated over\<close>







lemma first_frame_state:
  "landmark_buffer (frame_step init_tracker example_still_frame) = [uniform_landmarks 21 320 240]"
  unfolding frame_step_detected(1) [OF detected_example_still, of init_tracker]
  by (simp add: init_tracker_def deque_append_def smoothing_buffer_size_def)




end
